theory Spec2Isabelle
  imports Main
begin

section \<open>Python values, dictionaries and exceptions\<close>

text \<open>
  The values that travel through \<^verbatim>\<open>rest_client.py\<close>: keyword arguments typed
  \<^verbatim>\<open>Any\<close>, parsed JSON bodies, and the sentinel \<^verbatim>\<open>UNDEFINED\<close> imported from
  \<^verbatim>\<open>support.py_utils\<close>, which is an object of its own and so differs from
  \<^verbatim>\<open>None\<close>, \<^verbatim>\<open>False\<close> and every empty container.
\<close>

datatype pyval =
    PNone
  | UNDEFINED
  | PBool bool
  | PInt int
  | PStr string
  | PList "pyval list"
  | PDict "(string \<times> pyval) list"

text \<open>
  A Python \<^verbatim>\<open>dict\<close> keeps insertion order, so a dictionary with string keys is an
  association list. \<^verbatim>\<open>d[k] = v\<close> replaces the value in place when the key is present
  and appends the pair otherwise.
\<close>

type_synonym kwargs = "(string \<times> pyval) list"

primrec setitem :: "string \<Rightarrow> 'v \<Rightarrow> (string \<times> 'v) list \<Rightarrow> (string \<times> 'v) list" where
  "setitem k v [] = [(k, v)]"
| "setitem k v (p # ps) = (if fst p = k then (k, v) # ps else p # setitem k v ps)"

text \<open>The dict display \<^verbatim>\<open>{**d, **e}\<close>: the entries of \<open>e\<close> are stored into \<open>d\<close> in order.\<close>

definition dict_unpack :: "(string \<times> 'v) list \<Rightarrow> (string \<times> 'v) list \<Rightarrow> (string \<times> 'v) list" where
  "dict_unpack d e = fold (\<lambda>(k, v). setitem k v) e d"

text \<open>\<^verbatim>\<open>range(n)\<close> over Python's unbounded integers: empty when \<open>n \<le> 0\<close>.\<close>

definition py_range :: "int \<Rightarrow> int list" where
  "py_range n = map int [0..<nat n]"

text \<open>
  The dataclass \<^verbatim>\<open>Result\<close> as the dispatcher uses it: \<^verbatim>\<open>data\<close> (default
  \<^verbatim>\<open>None\<close>) and \<^verbatim>\<open>request\<close> (a dict).
\<close>

record Result =
  res_data :: pyval
  res_request :: kwargs

text \<open>
  A Python \<^verbatim>\<open>float\<close> (the \<^verbatim>\<open>timeout\<close>), only stored and handed on: mantissa and
  binary exponent.
\<close>

datatype pyfloat = PyFloat int int

text \<open>
  The f-strings of the source. A \<^verbatim>\<open>str\<close> is interpolated as it is; a field of another
  type is kept as a formatted field of that value (its \<^verbatim>\<open>str\<close>/\<^verbatim>\<open>repr\<close> is
  Python's, not this file's).
\<close>

datatype fragment =
    Lit string
  | FInt int
  | FFloat pyfloat
  | FKwargs kwargs
  | FResult Result

type_synonym message = "fragment list"

text \<open>
  The exceptions that occur. \<^verbatim>\<open>ReadTimeout\<close> and \<^verbatim>\<open>ConnectTimeout\<close> are the
  subclasses of \<^verbatim>\<open>requests.Timeout\<close>; \<^verbatim>\<open>TimeoutError\<close> is the builtin one
  (not a \<^verbatim>\<open>requests.Timeout\<close>) and carries its \<^verbatim>\<open>__cause__\<close>;
  \<^verbatim>\<open>ExternalBrokerError\<close> (from \<^verbatim>\<open>support.errors\<close>) carries message,
  \<^verbatim>\<open>status_code\<close> and \<^verbatim>\<open>__cause__\<close>; \<open>OtherException\<close> is any other subclass of
  \<^verbatim>\<open>Exception\<close>, by class name and message.
\<close>

datatype exc =
    ReadTimeout string
  | ConnectTimeout string
  | ConnectionError string
  | HTTPError int
  | JSONDecodeError string
  | TypeError string
  | ValueError string
  | AttributeError string
  | OtherException string string
  | TimeoutError message exc
  | ExternalBrokerError message int exc

text \<open>\<^verbatim>\<open>except ReadTimeout\<close> and \<^verbatim>\<open>except Timeout\<close>.\<close>

fun isinstance_ReadTimeout :: "exc \<Rightarrow> bool" where
  "isinstance_ReadTimeout (ReadTimeout m) = True"
| "isinstance_ReadTimeout e = False"

fun isinstance_Timeout :: "exc \<Rightarrow> bool" where
  "isinstance_Timeout (ReadTimeout m) = True"
| "isinstance_Timeout (ConnectTimeout m) = True"
| "isinstance_Timeout e = False"

section \<open>The client and its surroundings\<close>

text \<open>
  \<^verbatim>\<open>cacert: Union[os.PathLike, bool]\<close>: a path, or one of the two booleans.
\<close>

datatype cacert = CFalse | CTrue | CPath string

type_synonym logger = nat

record RestClient =
  base_url :: string
  cacert :: cacert
  priv_timeout :: pyfloat
  priv_max_retries :: int
  priv_logger :: "logger option"

text \<open>
  \<open>priv_timeout\<close>, \<open>priv_max_retries\<close> and \<open>priv_logger\<close> are the attributes
  \<^verbatim>\<open>_timeout\<close>, \<^verbatim>\<open>_max_retries\<close> and \<^verbatim>\<open>_logger\<close>; \<open>priv_logger = None\<close> is
  the object without the attribute \<^verbatim>\<open>_logger\<close> (the \<^verbatim>\<open>AttributeError\<close> case of the
  property \<^verbatim>\<open>logger\<close>).
\<close>

text \<open>One transport call: the arguments of \<^verbatim>\<open>requests.request\<close> at line 162.\<close>

record call =
  call_method :: string
  call_url :: string
  call_verify :: cacert
  call_timeout :: pyfloat
  call_kwargs :: kwargs

text \<open>
  The response object, as far as \<^verbatim>\<open>_process_response\<close> reads it: three attributes and
  the outcome of \<^verbatim>\<open>response.json()\<close>.
\<close>

record response =
  status_code :: int
  reason :: string
  body_text :: string
  json :: "exc + pyval"

datatype log_entry = LogInfo message | LogException exc

text \<open>
  What lies outside the module and does not change during a call: the filesystem
  (\<^verbatim>\<open>Path(...).exists()\<close>), \<^verbatim>\<open>var.LOGS_DIR\<close>, the helper
  \<^verbatim>\<open>support.py_utils.filter_none\<close> whose body is not part of the sources at hand, and
  the behaviour of the HTTP transport: \<open>transport E i\<close> is what the \<open>i\<close>-th physical call
  of \<^verbatim>\<open>requests.request\<close> does, a response or a raised exception.
\<close>

record env =
  path_exists :: "string \<Rightarrow> bool"
  LOGS_DIR :: string
  py_utils_filter_none :: "kwargs \<Rightarrow> kwargs"
  transport :: "nat \<Rightarrow> exc + response"

text \<open>
  What the module changes outside itself: the sinks created by
  \<^verbatim>\<open>new_daily_rotating_file_handler\<close> (name and path, in order of creation), the
  transport calls performed, the entries written to a client's sink and the lines written
  to the module logger \<^verbatim>\<open>_LOGGER\<close>.
\<close>

record world =
  sinks :: "(string \<times> string) list"
  calls :: "call list"
  sink_log :: "(logger \<times> log_entry) list"
  module_log :: "message list"

subsection \<open>Construction and the logger\<close>

text \<open>\<^verbatim>\<open>os.path.join(a, b)\<close> on POSIX for a relative \<open>b\<close>.\<close>

definition os_path_join :: "string \<Rightarrow> string \<Rightarrow> string" where
  "os_path_join a b = (if a = [] \<or> last a = CHR ''/'' then a @ b else a @ ''/'' @ b)"

text \<open>
  \<^verbatim>\<open>make_logger\<close> asks for a sink and stores it in \<^verbatim>\<open>self._logger\<close>. The handle of a
  sink is the position of its creation in \<open>sinks\<close>; the handle just stored is returned
  along with the state, for the property \<^verbatim>\<open>logger\<close> that reads it back at once.
\<close>

definition make_logger :: "env \<Rightarrow> RestClient \<times> world \<Rightarrow> logger \<times> RestClient \<times> world" where
  "make_logger E = (\<lambda>(c, w).
     let l = length (sinks w)
     in (l, c\<lparr>priv_logger := Some l\<rparr>,
            w\<lparr>sinks := sinks w @ [(''RestClient'', os_path_join (LOGS_DIR E) ''rest_client'')]\<rparr>))"

text \<open>
  The property \<^verbatim>\<open>logger\<close>: \<^verbatim>\<open>try: return self._logger\<close>, and on
  \<^verbatim>\<open>AttributeError\<close> \<^verbatim>\<open>make_logger()\<close> first.
\<close>

definition logger :: "env \<Rightarrow> RestClient \<times> world \<Rightarrow> logger \<times> RestClient \<times> world" where
  "logger E = (\<lambda>(c, w).
     case priv_logger c of
       Some l \<Rightarrow> (l, c, w)
     | None \<Rightarrow> make_logger E (c, w))"

text \<open>
  \<^verbatim>\<open>Path(self.cacert).exists()\<close>: \<^verbatim>\<open>Path\<close> of a boolean raises \<^verbatim>\<open>TypeError\<close>.
  The test \<^verbatim>\<open>self.cacert is False\<close> comes first and short-circuits.
\<close>

definition cacert_ok :: "env \<Rightarrow> cacert \<Rightarrow> exc + bool" where
  "cacert_ok E ca =
     (case ca of
        CFalse \<Rightarrow> Inr True
      | CTrue \<Rightarrow> Inl (TypeError ''expected str, bytes or os.PathLike object, not bool'')
      | CPath p \<Rightarrow> Inr (path_exists E p))"

text \<open>
  \<^verbatim>\<open>RestClient.__init__(url, cacert, timeout, max_retries)\<close>; \<open>url = None\<close> is Python's
  \<^verbatim>\<open>None\<close>. The result is the exception raised, or the constructed client and the
  world after construction.
\<close>

definition init :: "env \<Rightarrow> string option \<Rightarrow> cacert \<Rightarrow> pyfloat \<Rightarrow> int \<Rightarrow> world \<Rightarrow> exc + (RestClient \<times> world)" where
  "init E url ca tmo max_retries w =
     (case url of
        None \<Rightarrow> Inl (ValueError ''url must not be None'')
      | Some u \<Rightarrow>
          (let base = (if u \<noteq> [] \<and> last u = CHR ''/'' then u else u @ ''/'')
           in case cacert_ok E ca of
                Inl e \<Rightarrow> Inl e
              | Inr ok \<Rightarrow>
                  if \<not> ok then Inl (ValueError ''cacert must be a valid Path or False'')
                  else (let (l, c, w') =
                              make_logger E
                                (\<lparr>base_url = base, cacert = ca, priv_timeout = tmo,
                                  priv_max_retries = max_retries, priv_logger = None\<rparr>, w)
                        in Inr (c, w'))))"

section \<open>The dispatcher\<close>

subsection \<open>The transport call\<close>

text \<open>
  The call \<^verbatim>\<open>requests.request(method, url, verify=self.cacert, timeout=self._timeout,
  **kwargs)\<close>. Python binds the arguments before the callee runs: a key of \<^verbatim>\<open>kwargs\<close>
  that repeats a keyword of the call (\<^verbatim>\<open>verify\<close>, \<^verbatim>\<open>timeout\<close>) or names a parameter
  already given by position (\<^verbatim>\<open>method\<close>, \<^verbatim>\<open>url\<close> of
  \<^verbatim>\<open>requests.request(method, url, **kwargs)\<close>) raises \<^verbatim>\<open>TypeError\<close>, and no
  transport call takes place. Otherwise the call is performed and recorded, and its outcome
  is the transport's.
\<close>

definition bound_twice :: "kwargs \<Rightarrow> bool" where
  "bound_twice kw = list_ex (\<lambda>k. k \<in> set [''method'', ''url'', ''verify'', ''timeout'']) (map fst kw)"

definition requests_request ::
  "env \<Rightarrow> string \<Rightarrow> string \<Rightarrow> cacert \<Rightarrow> pyfloat \<Rightarrow> kwargs \<Rightarrow> world \<Rightarrow> (exc + response) \<times> world" where
  "requests_request E method url verify tmo kw w =
     (if bound_twice kw
      then (Inl (TypeError ''request() got multiple values for keyword argument''), w)
      else (transport E (length (calls w)),
            w\<lparr>calls := calls w @
                 [\<lparr>call_method = method, call_url = url, call_verify = verify,
                   call_timeout = tmo, call_kwargs = kw\<rparr>]\<rparr>))"

text \<open>The record of the call that \<^verbatim>\<open>request\<close> makes for a client, verb, URL and arguments.\<close>

definition call_of :: "RestClient \<Rightarrow> string \<Rightarrow> string \<Rightarrow> kwargs \<Rightarrow> call" where
  "call_of c method url kw =
     \<lparr>call_method = method, call_url = url, call_verify = cacert c,
      call_timeout = priv_timeout c, call_kwargs = kw\<rparr>"

subsection \<open>Response processing\<close>

text \<open>
  \<^verbatim>\<open>Response.raise_for_status()\<close> of the requests library: \<^verbatim>\<open>HTTPError\<close> for a
  status code from 400 to 599, nothing otherwise.
\<close>

definition raise_for_status :: "response \<Rightarrow> exc option" where
  "raise_for_status r =
     (if 400 \<le> status_code r \<and> status_code r < 600 then Some (HTTPError (status_code r)) else None)"

text \<open>
  \<^verbatim>\<open>_process_response\<close>: the body of the \<^verbatim>\<open>try\<close> first, then the two handlers. When
  a handler runs, \<^verbatim>\<open>result.data\<close> has not been assigned, so the message shows the
  \<^verbatim>\<open>result\<close> that came in.
\<close>

definition process_response_try :: "response \<Rightarrow> Result \<Rightarrow> exc + Result" where
  "process_response_try resp result =
     (case raise_for_status resp of
        Some e \<Rightarrow> Inl e
      | None \<Rightarrow>
          (case json resp of
             Inl e \<Rightarrow> Inl e
           | Inr d \<Rightarrow> Inr (result\<lparr>res_data := d\<rparr>)))"

definition process_response :: "RestClient \<Rightarrow> response \<Rightarrow> Result \<Rightarrow> exc + Result" where
  "process_response c resp result =
     (case process_response_try resp result of
        Inr r \<Rightarrow> Inr r
      | Inl e \<Rightarrow>
          if isinstance_Timeout e
          then Inl (ExternalBrokerError
                      [Lit ''Timeout error ('', FFloat (priv_timeout c), Lit ''S)'']
                      (status_code resp) e)
          else Inl (ExternalBrokerError
                      [Lit ''IbkrClient response error '', FResult result, Lit '' :: '',
                       FInt (status_code resp), Lit '' :: '', Lit (reason resp), Lit '' :: '',
                       Lit (body_text resp)]
                      (status_code resp) e))"

subsection \<open>The retry loop\<close>

text \<open>The two messages of the \<^verbatim>\<open>except ReadTimeout\<close> handler.\<close>

definition max_retries_message :: "RestClient \<Rightarrow> string \<Rightarrow> string \<Rightarrow> kwargs \<Rightarrow> message" where
  "max_retries_message c method url kw =
     [Lit ''Reached max retries ('', FInt (priv_max_retries c), Lit '') for '', Lit method,
      Lit '' '', Lit url, Lit '' '', FKwargs kw]"

definition retrying_message :: "RestClient \<Rightarrow> string \<Rightarrow> string \<Rightarrow> int \<Rightarrow> message" where
  "retrying_message c method url attempt =
     [Lit ''Timeout for '', Lit method, Lit '' '', Lit url, Lit '', retrying attempt '',
      FInt (attempt + 1), Lit ''/'', FInt (priv_max_retries c)]"

text \<open>
  One pass through the \<^verbatim>\<open>try\<close> block of the loop body (lines 162 to 164): the transport
  call, the fresh \<^verbatim>\<open>Result\<close>, and response processing. Whatever is raised in it, by the
  call or by the processing, reaches the handlers of \<^verbatim>\<open>request\<close>.
\<close>

definition try_block ::
  "env \<Rightarrow> RestClient \<Rightarrow> string \<Rightarrow> string \<Rightarrow> kwargs \<Rightarrow> world \<Rightarrow> (exc + Result) \<times> world" where
  "try_block E c method url kw w =
     (case requests_request E method url (cacert c) (priv_timeout c) kw w of
        (Inl e, w1) \<Rightarrow> (Inl e, w1)
      | (Inr resp, w1) \<Rightarrow>
          (process_response c resp
             \<lparr>res_data = PNone, res_request = dict_unpack [(''url'', PStr url)] kw\<rparr>, w1))"

text \<open>
  \<^verbatim>\<open>self.logger.exception(e)\<close>, and \<^verbatim>\<open>self.logger.info(...)\<close>: the property is read
  (which may create the sink), then the entry is written to that sink.
\<close>

definition logger_write :: "env \<Rightarrow> log_entry \<Rightarrow> RestClient \<times> world \<Rightarrow> RestClient \<times> world" where
  "logger_write E entry cw =
     (case logger E cw of
        (l, c', w') \<Rightarrow> (c', w'\<lparr>sink_log := sink_log w' @ [(l, entry)]\<rparr>))"

text \<open>
  \<^verbatim>\<open>for attempt in range(self._max_retries + 1)\<close>, as recursion over the attempts that
  remain. A list that runs out is the loop that ends without \<^verbatim>\<open>return\<close> or
  \<^verbatim>\<open>raise\<close>: the function falls off its end and returns \<^verbatim>\<open>None\<close>, here
  \<open>Inr None\<close>.
\<close>

fun attempts ::
  "env \<Rightarrow> string \<Rightarrow> string \<Rightarrow> bool \<Rightarrow> kwargs \<Rightarrow> int list \<Rightarrow> RestClient \<times> world
     \<Rightarrow> (exc + Result option) \<times> RestClient \<times> world" where
  "attempts E method url log kw [] cw = (Inr None, cw)"
| "attempts E method url log kw (attempt # rest) cw =
     (case try_block E (fst cw) method url kw (snd cw) of
        (Inr result, w1) \<Rightarrow> (Inr (Some result), fst cw, w1)
      | (Inl e, w1) \<Rightarrow>
          if isinstance_ReadTimeout e then
            (if attempt \<ge> priv_max_retries (fst cw)
             then (Inl (TimeoutError (max_retries_message (fst cw) method url kw) e), fst cw, w1)
             else attempts E method url log kw rest
                    (fst cw,
                     w1\<lparr>module_log := module_log w1 @ [retrying_message (fst cw) method url attempt]\<rparr>))
          else if log then (Inl e, logger_write E (LogException e) (fst cw, w1))
          else (Inl e, fst cw, w1))"

text \<open>The line logged at line 157 before the loop.\<close>

definition request_message :: "string \<Rightarrow> string \<Rightarrow> kwargs \<Rightarrow> int \<Rightarrow> message" where
  "request_message method url kw attempt =
     [Lit method, Lit '' '', Lit url, Lit '' '', FKwargs kw] @
     (if attempt > 0 then [Lit '' (attempt: '', FInt attempt, Lit '')''] else [])"

text \<open>
  \<^verbatim>\<open>request(method, endpoint, attempt, log, **kwargs)\<close>. The outcome is an exception
  (\<open>Inl\<close>), a \<^verbatim>\<open>Result\<close> (\<open>Inr (Some r)\<close>) or \<^verbatim>\<open>None\<close> (\<open>Inr None\<close>).
\<close>

definition request ::
  "env \<Rightarrow> string \<Rightarrow> string \<Rightarrow> int \<Rightarrow> bool \<Rightarrow> kwargs \<Rightarrow> RestClient \<times> world
     \<Rightarrow> (exc + Result option) \<times> RestClient \<times> world" where
  "request E method endpoint attempt log kwargs0 cw =
     (let url = base_url (fst cw) @ endpoint;
          kw = py_utils_filter_none E kwargs0;
          cw1 = (if log then logger_write E (LogInfo (request_message method url kw attempt)) cw
                 else cw)
      in attempts E method url log kw (py_range (priv_max_retries (fst cw) + 1)) cw1)"

text \<open>
  \<^verbatim>\<open>get\<close>, \<^verbatim>\<open>post\<close> and \<^verbatim>\<open>delete\<close>; \<open>params\<close> is a dict or \<^verbatim>\<open>None\<close>.
\<close>

definition get :: "env \<Rightarrow> string \<Rightarrow> pyval \<Rightarrow> bool \<Rightarrow> RestClient \<times> world
     \<Rightarrow> (exc + Result option) \<times> RestClient \<times> world" where
  "get E path params log = request E ''GET'' path 0 log [(''params'', params)]"

definition post :: "env \<Rightarrow> string \<Rightarrow> pyval \<Rightarrow> bool \<Rightarrow> RestClient \<times> world
     \<Rightarrow> (exc + Result option) \<times> RestClient \<times> world" where
  "post E path params log = request E ''POST'' path 0 log [(''json'', params)]"

definition delete :: "env \<Rightarrow> string \<Rightarrow> pyval \<Rightarrow> bool \<Rightarrow> RestClient \<times> world
     \<Rightarrow> (exc + Result option) \<times> RestClient \<times> world" where
  "delete E path params log = request E ''DELETE'' path 0 log [(''json'', params)]"

section \<open>Result objects on the heap\<close>

text \<open>
  \<^verbatim>\<open>Result.copy\<close> is about which container objects are shared, so here the containers
  live in a store. An address holds a dict or a list; what the container holds (\<open>'v\<close>) is
  left open, and may itself refer to other objects. Addresses below \<open>used\<close> are allocated.
  A field of a \<^verbatim>\<open>Result\<close> object is \<^verbatim>\<open>None\<close> or the address of a container.
\<close>

type_synonym addr = nat

datatype 'v container = DictObj "(string \<times> 'v) list" | ListObj "'v list"

record 'v heap =
  objs :: "addr \<Rightarrow> 'v container"
  used :: addr

record Result_obj =
  data :: "addr option"
  request_of :: "addr option"

text \<open>An argument of \<^verbatim>\<open>copy\<close>: left at its default \<^verbatim>\<open>UNDEFINED\<close>, or given.\<close>

datatype 'a arg = Default | Given 'a

text \<open>
  \<^verbatim>\<open>x.copy()\<close> for the value of a field: \<^verbatim>\<open>None\<close> has no method \<^verbatim>\<open>copy\<close>;
  the \<^verbatim>\<open>copy\<close> of a dict or a list is a new object with the same items.
\<close>

definition container_copy :: "'v heap \<Rightarrow> addr option \<Rightarrow> exc + (addr option \<times> 'v heap)" where
  "container_copy h x =
     (case x of
        None \<Rightarrow> Inl (AttributeError ''NoneType object has no attribute copy'')
      | Some a \<Rightarrow> Inr (Some (used h), h\<lparr>objs := (objs h)(used h := objs h a), used := Suc (used h)\<rparr>))"

text \<open>
  \<^verbatim>\<open>Result.copy(data, request)\<close>: the two keyword arguments of the constructor call are
  evaluated from left to right.
\<close>

definition copy ::
  "'v heap \<Rightarrow> Result_obj \<Rightarrow> addr option arg \<Rightarrow> addr option arg \<Rightarrow> exc + (Result_obj \<times> 'v heap)" where
  "copy h self data_arg request_arg =
     (case (case data_arg of Given d \<Rightarrow> Inr (d, h) | Default \<Rightarrow> container_copy h (data self)) of
        Inl e \<Rightarrow> Inl e
      | Inr (d, h1) \<Rightarrow>
          (case (case request_arg of Given r \<Rightarrow> Inr (r, h1)
                 | Default \<Rightarrow> container_copy h1 (request_of self)) of
             Inl e \<Rightarrow> Inl e
           | Inr (r, h2) \<Rightarrow> Inr (\<lparr>data = d, request_of = r\<rparr>, h2)))"

text \<open>\<^verbatim>\<open>pass_result(data, old_result)\<close>.\<close>

definition pass_result :: "'v heap \<Rightarrow> addr option \<Rightarrow> Result_obj \<Rightarrow> exc + (Result_obj \<times> 'v heap)" where
  "pass_result h d old_result = copy h old_result (Given d) Default"

text \<open>
  Mutating a container in place: \<^verbatim>\<open>d[k] = v\<close> on the dict at an address (a list has
  no string keys: \<^verbatim>\<open>TypeError\<close>).
\<close>

definition store_item :: "'v heap \<Rightarrow> addr \<Rightarrow> string \<Rightarrow> 'v \<Rightarrow> exc + 'v heap" where
  "store_item h a k v =
     (case objs h a of
        DictObj d \<Rightarrow> Inr (h\<lparr>objs := (objs h)(a := DictObj (setitem k v d))\<rparr>)
      | ListObj xs \<Rightarrow> Inl (TypeError ''list indices must be integers or slices, not str''))"

section \<open>Concrete surroundings\<close>

text \<open>
  The scenario of the specification's section 8: base URL \<^verbatim>\<open>https://api.test/\<close>,
  \<^verbatim>\<open>max_retries = 2\<close>, a transport that times out twice and then answers 200; and
  transports that always time out, time out once and then refuse the connection, or
  answer 404.
\<close>

definition script_e2e :: "nat \<Rightarrow> exc + response" where
  "script_e2e i =
     (if i < 2 then Inl (ReadTimeout ''read timed out'')
      else Inr \<lparr>status_code = 200, reason = ''OK'', body_text = ''{status: ok}'',
                json = Inr (PDict [(''status'', PStr ''ok'')])\<rparr>)"

text \<open>
  The helper of these surroundings drops the arguments whose value is \<^verbatim>\<open>None\<close> and keeps
  every other one, which is what the comment at the call site of \<^verbatim>\<open>filter_none\<close> says of
  it (line 153: "we remove all None parameters"). The arguments used below hold no
  \<^verbatim>\<open>None\<close> inside a container.
\<close>

definition E0 :: env where
  "E0 = \<lparr>path_exists = (\<lambda>p. p = ''/etc/ssl/ca.pem''), LOGS_DIR = ''logs'',
          py_utils_filter_none = filter (\<lambda>(k, v). v \<noteq> PNone), transport = script_e2e\<rparr>"

definition E_timeouts :: env where
  "E_timeouts = E0\<lparr>transport := (\<lambda>i. Inl (ReadTimeout ''read timed out''))\<rparr>"

definition E_refused :: env where
  "E_refused = E0\<lparr>transport := (\<lambda>i. if i < 1 then Inl (ReadTimeout ''read timed out'')
                                   else Inl (ConnectionError ''connection refused''))\<rparr>"

definition E_404 :: env where
  "E_404 = E0\<lparr>transport := (\<lambda>i. Inr \<lparr>status_code = 404, reason = ''Not Found'',
                                        body_text = ''not found'',
                                        json = Inl (JSONDecodeError ''Expecting value'')\<rparr>)\<rparr>"

definition w0 :: world where
  "w0 = \<lparr>sinks = [], calls = [], sink_log = [], module_log = []\<rparr>"

definition c0 :: RestClient where
  "c0 = \<lparr>base_url = ''https://api.test/'', cacert = CFalse, priv_timeout = PyFloat 10 0,
          priv_max_retries = 2, priv_logger = Some 0\<rparr>"

definition w1 :: world where
  "w1 = \<lparr>sinks = [(''RestClient'', ''logs/rest_client'')], calls = [], sink_log = [],
          module_log = []\<rparr>"

text \<open>A client whose \<^verbatim>\<open>max_retries\<close> is negative.\<close>

definition c_neg :: RestClient where
  "c_neg = c0\<lparr>priv_max_retries := - 1\<rparr>"

text \<open>A client object that has no attribute \<^verbatim>\<open>_logger\<close>.\<close>

definition c_bare :: RestClient where
  "c_bare = c0\<lparr>priv_logger := None\<rparr>"

section \<open>Properties of the logger and of one attempt\<close>

lemma logger_calls: "calls (snd (snd (logger E cw))) = calls (snd cw)"
  by (cases cw) (simp add: logger_def make_logger_def Let_def split: option.splits)

lemma logger_config:
  "base_url (fst (snd (logger E cw))) = base_url (fst cw)"
  "cacert (fst (snd (logger E cw))) = cacert (fst cw)"
  "priv_timeout (fst (snd (logger E cw))) = priv_timeout (fst cw)"
  "priv_max_retries (fst (snd (logger E cw))) = priv_max_retries (fst cw)"
  by (cases cw; simp add: logger_def make_logger_def Let_def split: option.splits)+

lemma logger_write_calls: "calls (snd (logger_write E entry cw)) = calls (snd cw)"
  using logger_calls [of E cw]
  by (cases "logger E cw") (simp add: logger_write_def)

lemma logger_write_config:
  "base_url (fst (logger_write E entry cw)) = base_url (fst cw)"
  "cacert (fst (logger_write E entry cw)) = cacert (fst cw)"
  "priv_timeout (fst (logger_write E entry cw)) = priv_timeout (fst cw)"
  "priv_max_retries (fst (logger_write E entry cw)) = priv_max_retries (fst cw)"
  using logger_config [of E cw]
  by (cases "logger E cw"; simp add: logger_write_def)+

lemma try_block_raises:
  assumes "\<not> bound_twice kw" and "transport E (length (calls w)) = Inl e"
  shows "try_block E c method url kw w = (Inl e, w\<lparr>calls := calls w @ [call_of c method url kw]\<rparr>)"
  using assms by (simp add: try_block_def requests_request_def call_of_def)

lemma try_block_responds:
  assumes "\<not> bound_twice kw" and "transport E (length (calls w)) = Inr resp"
  shows "try_block E c method url kw w =
    (process_response c resp \<lparr>res_data = PNone, res_request = dict_unpack [(''url'', PStr url)] kw\<rparr>,
     w\<lparr>calls := calls w @ [call_of c method url kw]\<rparr>)"
  using assms by (simp add: try_block_def requests_request_def call_of_def)

lemma process_response_raises_broker:
  assumes "process_response c resp r = Inl e"
  shows "\<exists>msg cause. e = ExternalBrokerError msg (status_code resp) cause"
  using assms by (auto simp: process_response_def split: sum.splits if_splits)

lemma process_response_not_ReadTimeout:
  assumes "process_response c resp r = Inl e"
  shows "\<not> isinstance_ReadTimeout e"
  using process_response_raises_broker [OF assms] by auto

lemma attempts_timeouts:
  assumes "\<not> bound_twice kw"
    and "\<forall>j<length pre. \<exists>e. transport E (length (calls w) + j) = Inl e \<and> isinstance_ReadTimeout e"
    and "\<forall>a\<in>set pre. a < priv_max_retries c"
  shows "attempts E method url log kw (pre @ rest) (c, w) =
         attempts E method url log kw rest
           (c, w\<lparr>calls := calls w @ replicate (length pre) (call_of c method url kw),
                 module_log := module_log w @ map (retrying_message c method url) pre\<rparr>)"
  using assms(2,3)
proof (induction pre arbitrary: w)
  case Nil
  then show ?case by simp
next
  case (Cons a pre)
  from Cons.prems(1) obtain e where e: "transport E (length (calls w)) = Inl e" "isinstance_ReadTimeout e"
    by force
  let ?w1 = "w\<lparr>calls := calls w @ [call_of c method url kw]\<rparr>"
  let ?w2 = "?w1\<lparr>module_log := module_log ?w1 @ [retrying_message c method url a]\<rparr>"
  have a: "a < priv_max_retries c" using Cons.prems(2) by simp
  have step: "attempts E method url log kw ((a # pre) @ rest) (c, w) =
              attempts E method url log kw (pre @ rest) (c, ?w2)"
    using e a by (simp add: try_block_raises [OF assms(1) e(1)])
  have tr: "\<forall>j<length pre. \<exists>e. transport E (length (calls ?w2) + j) = Inl e \<and> isinstance_ReadTimeout e"
  proof (intro allI impI)
    fix j assume "j < length pre"
    then have "Suc j < length (a # pre)" by simp
    from Cons.prems(1) [rule_format, OF this] show "\<exists>e. transport E (length (calls ?w2) + j) = Inl e \<and> isinstance_ReadTimeout e"
      by simp
  qed
  have "attempts E method url log kw (pre @ rest) (c, ?w2) =
        attempts E method url log kw rest
           (c, ?w2\<lparr>calls := calls ?w2 @ replicate (length pre) (call_of c method url kw),
                 module_log := module_log ?w2 @ map (retrying_message c method url) pre\<rparr>)"
    using Cons.IH [OF tr] Cons.prems(2) by simp
  with step show ?case by (simp add: replicate_app_Cons_same)
qed


lemma py_range_neg: "n \<le> 0 \<Longrightarrow> py_range n = []"
  by (simp add: py_range_def)

lemma upt_split_at:
  assumes "k \<le> n"
  shows "[0..<Suc n] = [0..<k] @ k # [Suc k..<Suc n]"
proof -
  obtain d where d: "Suc n = k + d" "0 < d"
    using assms by (metis add_Suc_right le_Suc_ex zero_less_Suc)
  have "[0..<k + d] = [0..<k] @ [k..<k + d]"
    by (rule upt_add_eq_append) simp
  moreover have "[k..<k + d] = k # [Suc k..<k + d]"
    using d(2) by (simp add: upt_conv_Cons)
  ultimately show ?thesis using d(1) by simp
qed

lemma py_range_split:
  assumes "k \<le> nat N" and "0 \<le> N"
  shows "py_range (N + 1) = map int [0..<k] @ int k # map int [Suc k..<Suc (nat N)]"
proof -
  have "nat (N + 1) = Suc (nat N)" using assms(2) by simp
  then show ?thesis
    using upt_split_at [OF assms(1)] by (simp add: py_range_def)
qed

lemma request_unfold:
  "request E method endpoint attempt log kwargs cw =
   attempts E method (base_url (fst cw) @ endpoint) log (py_utils_filter_none E kwargs)
     (py_range (priv_max_retries (fst cw) + 1))
     (if log then logger_write E (LogInfo (request_message method (base_url (fst cw) @ endpoint)
                                    (py_utils_filter_none E kwargs) attempt)) cw
      else cw)"
  by (simp add: request_def Let_def)

lemma before_loop:
  obtains c1 w1 where
    "(if log then logger_write E entry (c, w) else (c, w)) = (c1, w1)"
    "calls w1 = calls w" "cacert c1 = cacert c" "priv_timeout c1 = priv_timeout c"
    "priv_max_retries c1 = priv_max_retries c"
proof -
  obtain c1 w1 where eq: "(if log then logger_write E entry (c, w) else (c, w)) = (c1, w1)"
    by (cases "(if log then logger_write E entry (c, w) else (c, w))") blast
  show thesis
  proof (rule that [OF eq])
    show "calls w1 = calls w"
      using eq logger_write_calls [of E entry "(c, w)"] by (auto split: if_splits)
    show "cacert c1 = cacert c"
      using eq logger_write_config(2) [of E entry "(c, w)"] by (auto split: if_splits)
    show "priv_timeout c1 = priv_timeout c"
      using eq logger_write_config(3) [of E entry "(c, w)"] by (auto split: if_splits)
    show "priv_max_retries c1 = priv_max_retries c"
      using eq logger_write_config(4) [of E entry "(c, w)"] by (auto split: if_splits)
  qed
qed

lemma call_of_cong:
  "cacert c1 = cacert c \<Longrightarrow> priv_timeout c1 = priv_timeout c \<Longrightarrow>
   call_of c1 method url kw = call_of c method url kw"
  by (simp add: call_of_def)

lemma attempts_empty_calls:
  "calls (snd (snd (attempts E method url log kw [] cw))) = calls (snd cw)"
  by simp


lemma attempts_head_timeout_last:
  assumes "\<not> bound_twice kw" and "transport E (length (calls w)) = Inl e"
    and "isinstance_ReadTimeout e" and "priv_max_retries c \<le> a"
  shows "attempts E method url log kw (a # rest) (c, w) =
         (Inl (TimeoutError (max_retries_message c method url kw) e), c,
          w\<lparr>calls := calls w @ [call_of c method url kw]\<rparr>)"
  using assms(3,4) by (simp add: try_block_raises [OF assms(1,2)])

lemma attempts_head_other:
  assumes "\<not> bound_twice kw" and "transport E (length (calls w)) = Inl e"
    and "\<not> isinstance_ReadTimeout e"
  shows "fst (attempts E method url log kw (a # rest) (c, w)) = Inl e"
    and "calls (snd (snd (attempts E method url log kw (a # rest) (c, w)))) =
         calls w @ [call_of c method url kw]"
  using assms(3)
  by (simp_all add: try_block_raises [OF assms(1,2)] logger_write_calls)

lemma attempts_head_response_ok:
  assumes "\<not> bound_twice kw" and "transport E (length (calls w)) = Inr resp"
    and "process_response c resp
           \<lparr>res_data = PNone, res_request = dict_unpack [(''url'', PStr url)] kw\<rparr> = Inr r"
  shows "attempts E method url log kw (a # rest) (c, w) =
         (Inr (Some r), c, w\<lparr>calls := calls w @ [call_of c method url kw]\<rparr>)"
  using assms(3) by (simp add: try_block_responds [OF assms(1,2)])

lemma attempts_head_response_bad:
  assumes "\<not> bound_twice kw" and "transport E (length (calls w)) = Inr resp"
    and "process_response c resp
           \<lparr>res_data = PNone, res_request = dict_unpack [(''url'', PStr url)] kw\<rparr> = Inl e"
  shows "fst (attempts E method url log kw (a # rest) (c, w)) = Inl e"
    and "calls (snd (snd (attempts E method url log kw (a # rest) (c, w)))) =
         calls w @ [call_of c method url kw]"
  using assms(3) process_response_not_ReadTimeout [OF assms(3)]
  by (simp_all add: try_block_responds [OF assms(1,2)] logger_write_calls)

lemma request_reaches_attempt:
  assumes N: "0 \<le> priv_max_retries c" and k: "k \<le> nat (priv_max_retries c)"
    and nb: "\<not> bound_twice (py_utils_filter_none E kwargs)"
    and tm: "\<forall>j<k. \<exists>e. transport E (length (calls w) + j) = Inl e \<and> isinstance_ReadTimeout e"
  obtains c1 w2 where
    "request E method endpoint attempt log kwargs (c, w) =
       attempts E method (base_url c @ endpoint) log (py_utils_filter_none E kwargs)
         (int k # map int [Suc k..<Suc (nat (priv_max_retries c))]) (c1, w2)"
    "calls w2 = calls w @ replicate k
       (call_of c method (base_url c @ endpoint) (py_utils_filter_none E kwargs))"
    "cacert c1 = cacert c" "priv_timeout c1 = priv_timeout c"
    "priv_max_retries c1 = priv_max_retries c"
proof -
  let ?url = "base_url c @ endpoint"
  let ?kw = "py_utils_filter_none E kwargs"
  let ?entry = "LogInfo (request_message method ?url ?kw attempt)"
  obtain c1 w1 where start:
    "(if log then logger_write E ?entry (c, w) else (c, w)) = (c1, w1)"
    "calls w1 = calls w" "cacert c1 = cacert c" "priv_timeout c1 = priv_timeout c"
    "priv_max_retries c1 = priv_max_retries c"
    by (rule before_loop)
  let ?pre = "map int [0..<k]"
  let ?rest = "int k # map int [Suc k..<Suc (nat (priv_max_retries c))]"
  let ?w2 = "w1\<lparr>calls := calls w1 @ replicate (length ?pre) (call_of c1 method ?url ?kw),
                  module_log := module_log w1 @ map (retrying_message c1 method ?url) ?pre\<rparr>"
  have r: "request E method endpoint attempt log kwargs (c, w) =
           attempts E method ?url log ?kw (?pre @ ?rest) (c1, w1)"
    unfolding request_unfold fst_conv start(1) py_range_split [OF k N] ..
  have t1: "\<forall>j<length ?pre. \<exists>e. transport E (length (calls w1) + j) = Inl e \<and> isinstance_ReadTimeout e"
    using tm start(2) by simp
  have t2: "\<forall>a\<in>set ?pre. a < priv_max_retries c1"
    using k start(5) by auto
  have "attempts E method ?url log ?kw (?pre @ ?rest) (c1, w1) =
        attempts E method ?url log ?kw ?rest (c1, ?w2)"
    by (rule attempts_timeouts [OF nb t1 t2])
  with r have "request E method endpoint attempt log kwargs (c, w) =
        attempts E method ?url log ?kw ?rest (c1, ?w2)" by simp
  moreover have "calls ?w2 = calls w @ replicate k (call_of c method ?url ?kw)"
    using start(2) call_of_cong [OF start(3,4)] by simp
  ultimately show thesis using start(3,4,5) by (rule that)
qed

lemma setitem_fresh: "k \<notin> fst ` set d \<Longrightarrow> setitem k v d = d @ [(k, v)]"
  by (induction d) auto

lemma dict_unpack_fresh:
  assumes "distinct (map fst e)" and "fst ` set e \<inter> fst ` set d = {}"
  shows "dict_unpack d e = d @ e"
  using assms
proof (induction e arbitrary: d)
  case Nil
  then show ?case by (simp add: dict_unpack_def)
next
  case (Cons p e)
  obtain k v where p: "p = (k, v)" by (cases p)
  have fresh: "k \<notin> fst ` set d" using Cons.prems(2) p by auto
  have d: "distinct (map fst e)" using Cons.prems(1) by simp
  have disj: "fst ` set e \<inter> fst ` set (d @ [(k, v)]) = {}"
    using Cons.prems p by auto
  have "dict_unpack d (p # e) = dict_unpack (setitem k v d) e"
    by (simp add: dict_unpack_def p)
  also have "\<dots> = dict_unpack (d @ [(k, v)]) e"
    by (simp add: setitem_fresh [OF fresh])
  also have "\<dots> = (d @ [(k, v)]) @ e"
    by (rule Cons.IH [OF d disj])
  finally show ?case by (simp add: p)
qed

lemma not_bound_twice_url: "\<not> bound_twice kw \<Longrightarrow> ''url'' \<notin> fst ` set kw"
  by (auto simp: bound_twice_def list_ex_iff)

lemma request_dict:
  assumes "\<not> bound_twice kw" and "distinct (map fst kw)"
  shows "dict_unpack [(''url'', PStr url)] kw = (''url'', PStr url) # kw"
proof -
  have "fst ` set kw \<inter> fst ` set [(''url'', PStr url)] = {}"
    using not_bound_twice_url [OF assms(1)] by simp
  from dict_unpack_fresh [OF assms(2) this] show ?thesis by simp
qed

lemma process_response_fatal:
  assumes "400 \<le> status_code resp" and "status_code resp < 600"
  shows "process_response c resp result =
         Inl (ExternalBrokerError
                [Lit ''IbkrClient response error '', FResult result, Lit '' :: '',
                 FInt (status_code resp), Lit '' :: '', Lit (reason resp), Lit '' :: '',
                 Lit (body_text resp)]
                (status_code resp) (HTTPError (status_code resp)))"
  using assms by (simp add: process_response_def process_response_try_def raise_for_status_def)

lemma process_response_success:
  assumes "status_code resp < 400 \<or> 600 \<le> status_code resp" and "json resp = Inr body"
  shows "process_response c resp result = Inr (result\<lparr>res_data := body\<rparr>)"
  using assms by (auto simp: process_response_def process_response_try_def raise_for_status_def)

section \<open>The retry bound\<close>

text \<open>
  C1. With \<^verbatim>\<open>max_retries = N \<ge> 0\<close> and a transport that raises
  \<^verbatim>\<open>ReadTimeout\<close> at each of the \<open>N + 1\<close> attempts, \<^verbatim>\<open>request\<close> performs exactly
  \<open>N + 1\<close> transport calls, all with the same verb, URL and arguments, and then raises
  \<^verbatim>\<open>TimeoutError\<close>; the message names the retry budget, the verb, the URL and the
  arguments, and the cause is the \<^verbatim>\<open>ReadTimeout\<close> of the last attempt. (The arguments
  are those the interpreter can bind: no key of them repeats a parameter of the call.)
\<close>

theorem request_retries_exhausted:
  assumes "0 \<le> priv_max_retries c"
    and "\<not> bound_twice (py_utils_filter_none E kwargs)"
    and "\<forall>j\<le>nat (priv_max_retries c). transport E (length (calls w) + j) = Inl (ReadTimeout (m j))"
  shows "fst (request E method endpoint attempt log kwargs (c, w)) =
           Inl (TimeoutError
                  [Lit ''Reached max retries ('', FInt (priv_max_retries c), Lit '') for '',
                   Lit method, Lit '' '', Lit (base_url c @ endpoint), Lit '' '',
                   FKwargs (py_utils_filter_none E kwargs)]
                  (ReadTimeout (m (nat (priv_max_retries c)))))
       \<and> calls (snd (snd (request E method endpoint attempt log kwargs (c, w)))) =
           calls w @ replicate (nat (priv_max_retries c) + 1)
             (call_of c method (base_url c @ endpoint) (py_utils_filter_none E kwargs))"
proof -
  let ?url = "base_url c @ endpoint"
  let ?kw = "py_utils_filter_none E kwargs"
  let ?n = "nat (priv_max_retries c)"
  have tm: "\<forall>j<?n. \<exists>e. transport E (length (calls w) + j) = Inl e \<and> isinstance_ReadTimeout e"
    using assms(3) by simp
  obtain c1 w2 where run:
    "request E method endpoint attempt log kwargs (c, w) =
       attempts E method ?url log ?kw (int ?n # map int [Suc ?n..<Suc ?n]) (c1, w2)"
    "calls w2 = calls w @ replicate ?n (call_of c method ?url ?kw)"
    "cacert c1 = cacert c" "priv_timeout c1 = priv_timeout c"
    "priv_max_retries c1 = priv_max_retries c"
    by (rule request_reaches_attempt [OF assms(1) order_refl assms(2) tm])
  have last: "transport E (length (calls w2)) = Inl (ReadTimeout (m ?n))"
    using assms(3) run(2) by simp
  have le: "priv_max_retries c1 \<le> int ?n"
    using assms(1) run(5) by simp
  have "attempts E method ?url log ?kw (int ?n # map int [Suc ?n..<Suc ?n]) (c1, w2) =
        (Inl (TimeoutError (max_retries_message c1 method ?url ?kw) (ReadTimeout (m ?n))), c1,
         w2\<lparr>calls := calls w2 @ [call_of c1 method ?url ?kw]\<rparr>)"
    by (rule attempts_head_timeout_last [OF assms(2) last _ le]) simp
  then show ?thesis
    using run(1,2,5) call_of_cong [OF run(3,4)]
    by (simp add: max_retries_message_def replicate_append_same)
qed

theorem request_retries_exhausted_witness:
  "0 \<le> priv_max_retries c0
   \<and> \<not> bound_twice (py_utils_filter_none E_timeouts [(''params'', PNone)])
   \<and> transport E_timeouts (length (calls w1) + nat (priv_max_retries c0)) =
       Inl (ReadTimeout ''read timed out'')
   \<and> fst (request E_timeouts ''GET'' ''orders'' 0 True [(''params'', PNone)] (c0, w1)) =
       Inl (TimeoutError
              [Lit ''Reached max retries ('', FInt 2, Lit '') for '', Lit ''GET'', Lit '' '',
               Lit ''https://api.test/orders'', Lit '' '', FKwargs []]
              (ReadTimeout ''read timed out''))
   \<and> length (calls (snd (snd (request E_timeouts ''GET'' ''orders'' 0 True
                                  [(''params'', PNone)] (c0, w1))))) = 3"
proof -
  have h1: "0 \<le> priv_max_retries c0"
    by (simp add: c0_def)
  have h2: "\<not> bound_twice (py_utils_filter_none E_timeouts [(''params'', PNone)])"
    by (simp add: E_timeouts_def E0_def bound_twice_def)
  have h3: "\<forall>j\<le>nat (priv_max_retries c0).
              transport E_timeouts (length (calls w1) + j) =
              Inl (ReadTimeout ((\<lambda>j. ''read timed out'') j))"
    by (simp add: E_timeouts_def)
  have kw: "py_utils_filter_none E_timeouts [(''params'', PNone)] = []"
    by (simp add: E_timeouts_def E0_def)
  show ?thesis
    using h1 h2 h3 request_retries_exhausted [OF h1 h2 h3, of "''GET''" "''orders''" 0 True]
    by (simp add: kw c0_def w1_def)
qed

section \<open>Failures that are not retried\<close>

text \<open>
  C2. A transport failure that is not a \<^verbatim>\<open>ReadTimeout\<close>, at attempt \<open>k\<close> after \<open>k\<close>
  read-timeouts (\<open>k = 0\<close>: at the first attempt), is raised again by \<^verbatim>\<open>request\<close> as
  it is, and no transport call follows: the calls performed are the \<open>k + 1\<close> attempts made
  so far, whatever \<^verbatim>\<open>max_retries \<ge> k\<close> is.
\<close>

theorem request_other_failure_not_retried:
  assumes "0 \<le> priv_max_retries c" and "k \<le> nat (priv_max_retries c)"
    and "\<not> bound_twice (py_utils_filter_none E kwargs)"
    and "\<forall>j<k. transport E (length (calls w) + j) = Inl (ReadTimeout (m j))"
    and "transport E (length (calls w) + k) = Inl e"
    and "\<not> isinstance_ReadTimeout e"
  shows "fst (request E method endpoint attempt log kwargs (c, w)) = Inl e
       \<and> calls (snd (snd (request E method endpoint attempt log kwargs (c, w)))) =
           calls w @ replicate (k + 1)
             (call_of c method (base_url c @ endpoint) (py_utils_filter_none E kwargs))"
proof -
  let ?url = "base_url c @ endpoint"
  let ?kw = "py_utils_filter_none E kwargs"
  let ?rest = "map int [Suc k..<Suc (nat (priv_max_retries c))]"
  have tm: "\<forall>j<k. \<exists>e. transport E (length (calls w) + j) = Inl e \<and> isinstance_ReadTimeout e"
    using assms(4) by simp
  obtain c1 w2 where run:
    "request E method endpoint attempt log kwargs (c, w) =
       attempts E method ?url log ?kw (int k # ?rest) (c1, w2)"
    "calls w2 = calls w @ replicate k (call_of c method ?url ?kw)"
    "cacert c1 = cacert c" "priv_timeout c1 = priv_timeout c"
    "priv_max_retries c1 = priv_max_retries c"
    by (rule request_reaches_attempt [OF assms(1,2,3) tm])
  have here: "transport E (length (calls w2)) = Inl e"
    using assms(5) run(2) by simp
  have "fst (attempts E method ?url log ?kw (int k # ?rest) (c1, w2)) = Inl e"
    by (rule attempts_head_other(1) [OF assms(3) here assms(6)])
  moreover have "calls (snd (snd (attempts E method ?url log ?kw (int k # ?rest) (c1, w2)))) =
                 calls w2 @ [call_of c1 method ?url ?kw]"
    by (rule attempts_head_other(2) [OF assms(3) here assms(6)])
  ultimately show ?thesis
    using run(1,2) call_of_cong [OF run(3,4)]
    by (simp add: replicate_append_same)
qed

theorem request_other_failure_not_retried_witness:
  "0 \<le> priv_max_retries c0 \<and> 1 \<le> nat (priv_max_retries c0)
   \<and> \<not> bound_twice (py_utils_filter_none E_refused [(''params'', PNone)])
   \<and> transport E_refused (length (calls w1) + 0) = Inl (ReadTimeout ''read timed out'')
   \<and> transport E_refused (length (calls w1) + 1) = Inl (ConnectionError ''connection refused'')
   \<and> \<not> isinstance_ReadTimeout (ConnectionError ''connection refused'')
   \<and> fst (request E_refused ''GET'' ''orders'' 0 True [(''params'', PNone)] (c0, w1)) =
       Inl (ConnectionError ''connection refused'')
   \<and> length (calls (snd (snd (request E_refused ''GET'' ''orders'' 0 True
                                  [(''params'', PNone)] (c0, w1))))) = 2"
proof -
  have h1: "0 \<le> priv_max_retries c0" and h2: "1 \<le> nat (priv_max_retries c0)"
    by (simp_all add: c0_def)
  have h3: "\<not> bound_twice (py_utils_filter_none E_refused [(''params'', PNone)])"
    by (simp add: E_refused_def E0_def bound_twice_def)
  have h4: "\<forall>j<1. transport E_refused (length (calls w1) + j) =
              Inl (ReadTimeout ((\<lambda>j. ''read timed out'') j))"
    by (simp add: E_refused_def w1_def)
  have h5: "transport E_refused (length (calls w1) + 1) = Inl (ConnectionError ''connection refused'')"
    by (simp add: E_refused_def w1_def)
  have h6: "\<not> isinstance_ReadTimeout (ConnectionError ''connection refused'')"
    by simp
  show ?thesis
    using h1 h2 h3 h5 h6
      request_other_failure_not_retried [OF h1 h2 h3 h4 h5 h6, of "''GET''" "''orders''" 0 True]
    by (simp add: E_refused_def w1_def)
qed

text \<open>
  C3. A response whose status is an error status (400 to 599, where
  \<^verbatim>\<open>raise_for_status\<close> raises) makes the call fail with \<^verbatim>\<open>ExternalBrokerError\<close>
  carrying that status code, with the reason and the raw body in its message; there is
  exactly one transport call, for every \<^verbatim>\<open>max_retries \<ge> 0\<close>.
\<close>

theorem request_fatal_status:
  assumes "0 \<le> priv_max_retries c"
    and "\<not> bound_twice (py_utils_filter_none E kwargs)"
    and "transport E (length (calls w)) = Inr resp"
    and "400 \<le> status_code resp" and "status_code resp < 600"
  shows "fst (request E method endpoint attempt log kwargs (c, w)) =
           Inl (ExternalBrokerError
                  [Lit ''IbkrClient response error '',
                   FResult \<lparr>res_data = PNone,
                            res_request = dict_unpack [(''url'', PStr (base_url c @ endpoint))]
                                            (py_utils_filter_none E kwargs)\<rparr>,
                   Lit '' :: '', FInt (status_code resp), Lit '' :: '', Lit (reason resp),
                   Lit '' :: '', Lit (body_text resp)]
                  (status_code resp) (HTTPError (status_code resp)))
       \<and> calls (snd (snd (request E method endpoint attempt log kwargs (c, w)))) =
           calls w @ [call_of c method (base_url c @ endpoint) (py_utils_filter_none E kwargs)]"
proof -
  let ?url = "base_url c @ endpoint"
  let ?kw = "py_utils_filter_none E kwargs"
  let ?rest = "map int [Suc 0..<Suc (nat (priv_max_retries c))]"
  obtain c1 w2 where run:
    "request E method endpoint attempt log kwargs (c, w) =
       attempts E method ?url log ?kw (int 0 # ?rest) (c1, w2)"
    "calls w2 = calls w @ replicate 0 (call_of c method ?url ?kw)"
    "cacert c1 = cacert c" "priv_timeout c1 = priv_timeout c"
    "priv_max_retries c1 = priv_max_retries c"
    by (rule request_reaches_attempt [OF assms(1) _ assms(2), of 0]) simp_all
  have here: "transport E (length (calls w2)) = Inr resp"
    using assms(3) run(2) by simp
  note fatal = process_response_fatal [OF assms(4,5)]
  have "fst (attempts E method ?url log ?kw (int 0 # ?rest) (c1, w2)) =
        Inl (ExternalBrokerError
               [Lit ''IbkrClient response error '',
                FResult \<lparr>res_data = PNone,
                         res_request = dict_unpack [(''url'', PStr ?url)] ?kw\<rparr>,
                Lit '' :: '', FInt (status_code resp), Lit '' :: '', Lit (reason resp),
                Lit '' :: '', Lit (body_text resp)]
               (status_code resp) (HTTPError (status_code resp)))"
    by (rule attempts_head_response_bad(1) [OF assms(2) here fatal])
  moreover have "calls (snd (snd (attempts E method ?url log ?kw (int 0 # ?rest) (c1, w2)))) =
                 calls w2 @ [call_of c1 method ?url ?kw]"
    by (rule attempts_head_response_bad(2) [OF assms(2) here fatal])
  ultimately show ?thesis
    using run(1,2) call_of_cong [OF run(3,4)]
    by simp
qed

theorem request_fatal_status_witness:
  "0 \<le> priv_max_retries c0
   \<and> \<not> bound_twice (py_utils_filter_none E_404 [(''params'', PNone)])
   \<and> fst (request E_404 ''GET'' ''orders'' 0 True [(''params'', PNone)] (c0, w1)) =
       Inl (ExternalBrokerError
              [Lit ''IbkrClient response error '',
               FResult \<lparr>res_data = PNone,
                        res_request = [(''url'', PStr ''https://api.test/orders'')]\<rparr>,
               Lit '' :: '', FInt 404, Lit '' :: '', Lit ''Not Found'', Lit '' :: '',
               Lit ''not found'']
              404 (HTTPError 404))
   \<and> length (calls (snd (snd (request E_404 ''GET'' ''orders'' 0 True
                                  [(''params'', PNone)] (c0, w1))))) = 1"
proof -
  let ?resp = "\<lparr>status_code = 404, reason = ''Not Found'', body_text = ''not found'',
                json = Inl (JSONDecodeError ''Expecting value'')\<rparr>"
  have h1: "0 \<le> priv_max_retries c0"
    by (simp add: c0_def)
  have h2: "\<not> bound_twice (py_utils_filter_none E_404 [(''params'', PNone)])"
    by (simp add: E_404_def E0_def bound_twice_def)
  have h3: "transport E_404 (length (calls w1)) = Inr ?resp"
    by (simp add: E_404_def)
  have h4: "400 \<le> status_code ?resp" and h5: "status_code ?resp < 600"
    by simp_all
  have kw: "py_utils_filter_none E_404 [(''params'', PNone)] = []"
    by (simp add: E_404_def E0_def)
  show ?thesis
    using h1 h2 request_fatal_status [OF h1 h2 h3 h4 h5, of "''GET''" "''orders''" 0 True]
    by (simp add: kw c0_def w1_def dict_unpack_def)
qed

section \<open>Success ends the loop\<close>

text \<open>
  C4. When attempt \<open>k \<le> N\<close> (after \<open>k\<close> read-timeouts) gets a response with a success
  status whose body parses, \<^verbatim>\<open>request\<close> returns at once: \<open>k + 1\<close> transport calls and
  no more, and a \<^verbatim>\<open>Result\<close> whose \<^verbatim>\<open>data\<close> is the parsed body of that response and
  whose \<^verbatim>\<open>request\<close> is the resolved URL under \<^verbatim>\<open>url\<close> followed by the filtered
  arguments.
\<close>

theorem request_success_short_circuits:
  assumes "0 \<le> priv_max_retries c" and "k \<le> nat (priv_max_retries c)"
    and "\<not> bound_twice (py_utils_filter_none E kwargs)"
    and "distinct (map fst (py_utils_filter_none E kwargs))"
    and "\<forall>j<k. transport E (length (calls w) + j) = Inl (ReadTimeout (m j))"
    and "transport E (length (calls w) + k) = Inr resp"
    and "status_code resp < 400 \<or> 600 \<le> status_code resp"
    and "json resp = Inr body"
  shows "fst (request E method endpoint attempt log kwargs (c, w)) =
           Inr (Some \<lparr>res_data = body,
                      res_request = (''url'', PStr (base_url c @ endpoint)) #
                                    py_utils_filter_none E kwargs\<rparr>)
       \<and> calls (snd (snd (request E method endpoint attempt log kwargs (c, w)))) =
           calls w @ replicate (k + 1)
             (call_of c method (base_url c @ endpoint) (py_utils_filter_none E kwargs))"
proof -
  let ?url = "base_url c @ endpoint"
  let ?kw = "py_utils_filter_none E kwargs"
  let ?rest = "map int [Suc k..<Suc (nat (priv_max_retries c))]"
  let ?r0 = "\<lparr>res_data = PNone, res_request = dict_unpack [(''url'', PStr ?url)] ?kw\<rparr>"
  have tm: "\<forall>j<k. \<exists>e. transport E (length (calls w) + j) = Inl e \<and> isinstance_ReadTimeout e"
    using assms(5) by simp
  obtain c1 w2 where run:
    "request E method endpoint attempt log kwargs (c, w) =
       attempts E method ?url log ?kw (int k # ?rest) (c1, w2)"
    "calls w2 = calls w @ replicate k (call_of c method ?url ?kw)"
    "cacert c1 = cacert c" "priv_timeout c1 = priv_timeout c"
    "priv_max_retries c1 = priv_max_retries c"
    by (rule request_reaches_attempt [OF assms(1,2,3) tm])
  have here: "transport E (length (calls w2)) = Inr resp"
    using assms(6) run(2) by simp
  have ok: "process_response c1 resp ?r0 = Inr (?r0\<lparr>res_data := body\<rparr>)"
    by (rule process_response_success [OF assms(7,8)])
  have "attempts E method ?url log ?kw (int k # ?rest) (c1, w2) =
        (Inr (Some (?r0\<lparr>res_data := body\<rparr>)), c1,
         w2\<lparr>calls := calls w2 @ [call_of c1 method ?url ?kw]\<rparr>)"
    by (rule attempts_head_response_ok [OF assms(3) here ok])
  moreover have "dict_unpack [(''url'', PStr ?url)] ?kw = (''url'', PStr ?url) # ?kw"
    by (rule request_dict [OF assms(3,4)])
  ultimately show ?thesis
    using run(1,2) call_of_cong [OF run(3,4)]
    by (simp add: replicate_append_same)
qed

theorem request_success_short_circuits_witness:
  "0 \<le> priv_max_retries c0 \<and> 2 \<le> nat (priv_max_retries c0)
   \<and> \<not> bound_twice (py_utils_filter_none E0 [(''params'', PNone)])
   \<and> distinct (map fst (py_utils_filter_none E0 [(''params'', PNone)]))
   \<and> fst (request E0 ''GET'' ''orders'' 0 True [(''params'', PNone)] (c0, w1)) =
       Inr (Some \<lparr>res_data = PDict [(''status'', PStr ''ok'')],
                  res_request = [(''url'', PStr ''https://api.test/orders'')]\<rparr>)
   \<and> length (calls (snd (snd (request E0 ''GET'' ''orders'' 0 True
                                  [(''params'', PNone)] (c0, w1))))) = 3"
proof -
  let ?resp = "\<lparr>status_code = 200, reason = ''OK'', body_text = ''{status: ok}'',
                json = Inr (PDict [(''status'', PStr ''ok'')])\<rparr>"
  have h1: "0 \<le> priv_max_retries c0" and h2: "2 \<le> nat (priv_max_retries c0)"
    by (simp_all add: c0_def)
  have kw: "py_utils_filter_none E0 [(''params'', PNone)] = []"
    by (simp add: E0_def)
  have h3: "\<not> bound_twice (py_utils_filter_none E0 [(''params'', PNone)])"
    by (simp add: kw bound_twice_def)
  have h4: "distinct (map fst (py_utils_filter_none E0 [(''params'', PNone)]))"
    by (simp add: kw)
  have h5: "\<forall>j<2. transport E0 (length (calls w1) + j) =
              Inl (ReadTimeout ((\<lambda>j. ''read timed out'') j))"
    by (simp add: E0_def script_e2e_def w1_def)
  have h6: "transport E0 (length (calls w1) + 2) = Inr ?resp"
    by (simp add: E0_def script_e2e_def w1_def)
  have h7: "status_code ?resp < 400 \<or> 600 \<le> status_code ?resp"
    by simp
  have h8: "json ?resp = Inr (PDict [(''status'', PStr ''ok'')])"
    by simp
  show ?thesis
    using h1 h2 h3 h4
      request_success_short_circuits [OF h1 h2 h3 h4 h5 h6 h7 h8, of "''GET''" "''orders''" 0 True]
    by (simp add: kw c0_def w1_def)
qed

lemma request_without_attempts:
  assumes "priv_max_retries c < 0"
  shows "fst (request E verb endpoint attempt log kwargs (c, w)) = Inr None
       \<and> calls (snd (snd (request E verb endpoint attempt log kwargs (c, w)))) = calls w"
proof -
  let ?entry = "LogInfo (request_message verb (base_url c @ endpoint)
                  (py_utils_filter_none E kwargs) attempt)"
  obtain c1 w1 where start:
    "(if log then logger_write E ?entry (c, w) else (c, w)) = (c1, w1)"
    "calls w1 = calls w" "cacert c1 = cacert c" "priv_timeout c1 = priv_timeout c"
    "priv_max_retries c1 = priv_max_retries c"
    by (rule before_loop)
  have empty: "py_range (priv_max_retries c + 1) = []"
    using assms by (simp add: py_range_neg)
  have "request E verb endpoint attempt log kwargs (c, w) = (Inr None, c1, w1)"
    unfolding request_unfold fst_conv start(1) empty by simp
  then show ?thesis using start(2) by simp
qed

section \<open>A negative retry budget\<close>

text \<open>
  C10. With a stored \<^verbatim>\<open>max_retries < 0\<close> the loop body is never entered:
  \<^verbatim>\<open>request\<close>, and so \<^verbatim>\<open>get\<close>, \<^verbatim>\<open>post\<close> and \<^verbatim>\<open>delete\<close>, perform no
  transport call, raise nothing and return \<^verbatim>\<open>None\<close>.
\<close>

theorem negative_max_retries_returns_None:
  assumes "priv_max_retries c < 0"
  shows "fst (request E method endpoint attempt log kwargs (c, w)) = Inr None
       \<and> calls (snd (snd (request E method endpoint attempt log kwargs (c, w)))) = calls w
       \<and> fst (get E path params log (c, w)) = Inr None
       \<and> calls (snd (snd (get E path params log (c, w)))) = calls w
       \<and> fst (post E path params log (c, w)) = Inr None
       \<and> calls (snd (snd (post E path params log (c, w)))) = calls w
       \<and> fst (delete E path params log (c, w)) = Inr None
       \<and> calls (snd (snd (delete E path params log (c, w)))) = calls w"
  unfolding get_def post_def delete_def
  using request_without_attempts [OF assms] by blast

theorem negative_max_retries_returns_None_witness:
  "priv_max_retries c_neg < 0
   \<and> fst (request E0 ''GET'' ''orders'' 0 True [(''params'', PNone)] (c_neg, w1)) = Inr None
   \<and> calls (snd (snd (request E0 ''GET'' ''orders'' 0 True [(''params'', PNone)] (c_neg, w1)))) = []
   \<and> fst (get E0 ''orders'' PNone True (c_neg, w1)) = Inr None
   \<and> fst (post E0 ''orders'' PNone True (c_neg, w1)) = Inr None
   \<and> fst (delete E0 ''orders'' PNone True (c_neg, w1)) = Inr None"
proof -
  have h: "priv_max_retries c_neg < 0"
    by (simp add: c_neg_def)
  show ?thesis
    using h negative_max_retries_returns_None [OF h, of E0 "''GET''" "''orders''" 0 True
        "[(''params'', PNone)]" w1 "''orders''" PNone]
    by (simp add: w1_def)
qed

section \<open>The arguments that reach the transport\<close>







section \<open>Copies of a Result\<close>

text \<open>
  For a \<^verbatim>\<open>Result\<close> whose two fields hold containers, \<^verbatim>\<open>copy()\<close> allocates two
  new containers with the items of the old ones, and storing into the copy's
  \<^verbatim>\<open>data\<close> leaves both containers of the original as they were. The copy is shallow:
  the items themselves are shared.
\<close>

lemma copy_fresh_containers:
  assumes "data self = Some a" and "request_of self = Some b" and "b < used h"
  shows "copy h self Default Default =
         Inr (\<lparr>data = Some (used h), request_of = Some (Suc (used h))\<rparr>,
              h\<lparr>objs := (objs h)(used h := objs h a, Suc (used h) := objs h b),
                used := Suc (Suc (used h))\<rparr>)"
  using assms by (simp add: copy_def container_copy_def)

lemma copy_then_store_keeps_original:
  assumes "data self = Some a" and "request_of self = Some b"
    and "a < used h" and "b < used h"
    and "copy h self Default Default = Inr (cp, h1)"
    and "data cp = Some a'" and "store_item h1 a' k v = Inr h2"
  shows "a' \<noteq> a \<and> objs h1 a' = objs h a \<and> objs h2 a = objs h a \<and> objs h2 b = objs h b"
proof -
  from assms(5) copy_fresh_containers [OF assms(1,2,4)]
  have cp: "cp = \<lparr>data = Some (used h), request_of = Some (Suc (used h))\<rparr>"
    and h1: "h1 = h\<lparr>objs := (objs h)(used h := objs h a, Suc (used h) := objs h b),
                     used := Suc (Suc (used h))\<rparr>"
    by simp_all
  have a': "a' = used h" using assms(6) cp by simp
  show ?thesis
    using assms(3,4,7) by (auto simp: a' h1 store_item_def split: container.splits)
qed

text \<open>
  C6. \<^verbatim>\<open>r.copy()\<close> with no overrides is claimed to return a new \<^verbatim>\<open>Result\<close> for
  every \<^verbatim>\<open>r\<close>. For a \<^verbatim>\<open>Result\<close> whose \<^verbatim>\<open>data\<close> is \<^verbatim>\<open>None\<close>, the default of
  the field, the source evaluates \<^verbatim>\<open>self.data.copy()\<close> and raises
  \<^verbatim>\<open>AttributeError\<close> instead, whatever \<^verbatim>\<open>request\<close> holds.
\<close>

theorem copy_without_data_raises:
  "copy h \<lparr>data = None, request_of = r\<rparr> Default Default =
   Inl (AttributeError ''NoneType object has no attribute copy'')"
  by (simp add: copy_def container_copy_def)

section \<open>Construction\<close>

text \<open>
  C7 as the specification states it (a negative \<^verbatim>\<open>max_retries\<close> fails construction)
  does not hold: construction with \<^verbatim>\<open>max_retries = -1\<close> returns a client.
\<close>

theorem init_negative_max_retries_counterexample:
  "\<not> isl (init E0 (Some ''https://api.test/'') CFalse (PyFloat 10 0) (- 1) w0)"
  by (simp add: init_def cacert_ok_def make_logger_def Let_def)

text \<open>
  C7, amended. \<^verbatim>\<open>__init__\<close> does not look at \<^verbatim>\<open>max_retries\<close>: whether construction
  fails is the same for every value of it, negative ones included, and a client that is
  constructed stores the value as given.
\<close>

theorem init_stores_max_retries:
  "isl (init E url ca tmo n w) = isl (init E url ca tmo 0 w)
   \<and> (init E url ca tmo n w = Inr (c, w') \<longrightarrow> priv_max_retries c = n)"
  by (auto simp: init_def make_logger_def Let_def split: option.splits sum.splits)

theorem init_stores_max_retries_witness:
  "isl (init E0 (Some ''https://api.test/'') CFalse (PyFloat 10 0) (- 1) w0) =
     isl (init E0 (Some ''https://api.test/'') CFalse (PyFloat 10 0) 0 w0)
   \<and> init E0 (Some ''https://api.test/'') CFalse (PyFloat 10 0) (- 1) w0 = Inr (c_neg, w1)
   \<and> priv_max_retries c_neg = - 1"
proof -
  have run: "init E0 (Some ''https://api.test/'') CFalse (PyFloat 10 0) (- 1) w0 = Inr (c_neg, w1)"
    by (simp add: init_def cacert_ok_def make_logger_def Let_def E0_def w0_def w1_def c_neg_def
        c0_def os_path_join_def)
  show ?thesis
    using run init_stores_max_retries [of E0 "Some ''https://api.test/''" CFalse "PyFloat 10 0"
        "- 1" w0 c_neg w1]
    by simp
qed

text \<open>
  C8. A \<^verbatim>\<open>cacert\<close> that is a path which does not exist makes construction fail with
  \<^verbatim>\<open>ValueError\<close> (for a missing \<^verbatim>\<open>url\<close> the \<^verbatim>\<open>ValueError\<close> about the url
  comes first), so no client exists to send a request; with \<^verbatim>\<open>False\<close> or an existing
  path, and a url, construction succeeds, keeps the value, and makes no transport call.
\<close>

theorem init_checks_cacert:
  "(\<not> path_exists E p \<longrightarrow>
      init E url (CPath p) tmo n w =
        Inl (ValueError (if url = None then ''url must not be None''
                         else ''cacert must be a valid Path or False'')))
   \<and> (ca = CFalse \<or> (\<exists>q. ca = CPath q \<and> path_exists E q) \<longrightarrow>
      (\<exists>c w'. init E (Some u) ca tmo n w = Inr (c, w') \<and> cacert c = ca \<and> calls w' = calls w))"
  by (auto simp: init_def cacert_ok_def make_logger_def Let_def split: option.splits)

theorem init_checks_cacert_witness:
  "\<not> path_exists E0 ''/no/such/ca.pem''
   \<and> init E0 (Some ''https://api.test/'') (CPath ''/no/such/ca.pem'') (PyFloat 10 0) 2 w0 =
       Inl (ValueError ''cacert must be a valid Path or False'')
   \<and> path_exists E0 ''/etc/ssl/ca.pem''
   \<and> isl (init E0 (Some ''https://api.test/'') (CPath ''/no/such/ca.pem'') (PyFloat 10 0) 2 w0)
   \<and> \<not> isl (init E0 (Some ''https://api.test/'') (CPath ''/etc/ssl/ca.pem'') (PyFloat 10 0) 2 w0)
   \<and> \<not> isl (init E0 (Some ''https://api.test/'') CFalse (PyFloat 10 0) 2 w0)"
proof -
  have h1: "\<not> path_exists E0 ''/no/such/ca.pem''" and h2: "path_exists E0 ''/etc/ssl/ca.pem''"
    by (simp_all add: E0_def)
  have a: "init E0 (Some ''https://api.test/'') (CPath ''/no/such/ca.pem'') (PyFloat 10 0) 2 w0 =
       Inl (ValueError ''cacert must be a valid Path or False'')"
    using h1 init_checks_cacert [of E0 "''/no/such/ca.pem''" "Some ''https://api.test/''"
        "PyFloat 10 0" 2 w0 CFalse "''https://api.test/''"]
    by simp
  have b: "\<not> isl (init E0 (Some ''https://api.test/'') (CPath ''/etc/ssl/ca.pem'') (PyFloat 10 0) 2 w0)"
    using h2 init_checks_cacert [of E0 "''/no/such/ca.pem''" "Some ''https://api.test/''"
        "PyFloat 10 0" 2 w0 "CPath ''/etc/ssl/ca.pem''" "''https://api.test/''"]
    by auto
  have c: "\<not> isl (init E0 (Some ''https://api.test/'') CFalse (PyFloat 10 0) 2 w0)"
    using init_checks_cacert [of E0 "''/no/such/ca.pem''" "Some ''https://api.test/''"
        "PyFloat 10 0" 2 w0 CFalse "''https://api.test/''"]
    by auto
  show ?thesis using h1 h2 a b c by simp
qed

text \<open>
  C9 as the specification states it (construction does not create the logging sink) does
  not hold: after construction the client holds a sink, and the world has one sink more.
\<close>

theorem init_creates_sink_counterexample:
  "init E0 (Some ''https://api.test/'') CFalse (PyFloat 10 0) 2 w0 = Inr (c0, w1)
   \<and> priv_logger c0 \<noteq> None \<and> sinks w1 \<noteq> sinks w0"
  by (simp add: init_def cacert_ok_def make_logger_def Let_def E0_def w0_def w1_def
      c0_def os_path_join_def)

text \<open>
  C9, amended. Construction creates the sink, by its call of \<^verbatim>\<open>make_logger\<close>. The
  property \<^verbatim>\<open>logger\<close> returns the sink the client holds and creates nothing; only for
  an object without the attribute does it create a sink, without failing, store it, and
  return that same sink at the next access.
\<close>

theorem logger_created_at_construction_then_reused:
  "(init E url ca tmo n w = Inr (c, w') \<longrightarrow>
      priv_logger c = Some (length (sinks w))
      \<and> sinks w' = sinks w @ [(''RestClient'', os_path_join (LOGS_DIR E) ''rest_client'')])
   \<and> (priv_logger d = Some l \<longrightarrow> logger E (d, v) = (l, d, v))
   \<and> (priv_logger d = None \<longrightarrow>
        (\<exists>l' d' v'. logger E (d, v) = (l', d', v')
           \<and> priv_logger d' = Some l'
           \<and> sinks v' = sinks v @ [(''RestClient'', os_path_join (LOGS_DIR E) ''rest_client'')]
           \<and> logger E (d', v') = (l', d', v')))"
  by (auto simp: init_def logger_def make_logger_def Let_def split: option.splits sum.splits if_splits)

theorem logger_created_at_construction_then_reused_witness:
  "init E0 (Some ''https://api.test/'') CFalse (PyFloat 10 0) 2 w0 = Inr (c0, w1)
   \<and> priv_logger c0 = Some (length (sinks w0))
   \<and> sinks w1 = sinks w0 @ [(''RestClient'', ''logs/rest_client'')]
   \<and> logger E0 (c0, w1) = (0, c0, w1)
   \<and> priv_logger c_bare = None
   \<and> logger E0 (c_bare, w0) = (0, c0, w1)"
proof -
  have run: "init E0 (Some ''https://api.test/'') CFalse (PyFloat 10 0) 2 w0 = Inr (c0, w1)"
    by (simp add: init_def cacert_ok_def make_logger_def Let_def E0_def w0_def w1_def
        c0_def os_path_join_def)
  have l0: "priv_logger c0 = Some 0" by (simp add: c0_def)
  have bare: "priv_logger c_bare = None" by (simp add: c_bare_def)
  have lazy: "logger E0 (c_bare, w0) = (0, c0, w1)"
    by (simp add: logger_def make_logger_def Let_def c_bare_def c0_def w0_def w1_def E0_def
        os_path_join_def)
  note reused = logger_created_at_construction_then_reused [of E0 "Some ''https://api.test/''"
      CFalse "PyFloat 10 0" 2 w0 c0 w1 c0 0 w1]
  have made: "priv_logger c0 = Some (length (sinks w0))
      \<and> sinks w1 = sinks w0 @ [(''RestClient'', os_path_join (LOGS_DIR E0) ''rest_client'')]"
    using reused run by blast
  have again: "logger E0 (c0, w1) = (0, c0, w1)"
    using reused l0 by blast
  have path: "os_path_join (LOGS_DIR E0) ''rest_client'' = ''logs/rest_client''"
    by (simp add: E0_def os_path_join_def)
  show ?thesis
    using run made again bare lazy by (simp add: path)
qed

end
